theory Spec2Isabelle
  imports Main "HOL-Library.Word" "HOL-Library.Multiset"
begin

section \<open>Escrow-backed milestone payments: the store, the coordinator, the condition generator\<close>

text \<open>
  A shallow embedding of \<^verbatim>\<open>backend/app/db.py\<close>, \<^verbatim>\<open>storage.py\<close>,
  \<^verbatim>\<open>conditions.py\<close> and \<^verbatim>\<open>escrows.py\<close>. The SQLite table is a list of rows
  in insertion order; every function that opens a connection takes the table and, when it
  writes, returns the table after its transaction. Exceptions are values of \<open>exn\<close>; a
  function that can raise returns \<open>exn + 'a\<close> with \<open>Inl\<close> for the exception.
\<close>

subsection \<open>Exceptions\<close>

datatype exn =
    RuntimeError string      \<comment> \<open>raised by \<^verbatim>\<open>escrows.py\<close> itself\<close>
  | KeyError string          \<comment> \<open>\<^verbatim>\<open>resp.result["hash"]\<close> on a result with no hash\<close>
  | IntegrityError           \<comment> \<open>sqlite3: the unique index refuses the insert\<close>
  | OverflowError            \<comment> \<open>sqlite3: a Python int outside the 64-bit INTEGER range\<close>
  | XRPLModelException string  \<comment> \<open>xrpl: a transaction model refused at construction\<close>
  | XRPLException string     \<comment> \<open>anything else the xrpl library raises\<close>

subsection \<open>The table \<^verbatim>\<open>milestones\<close> (db.py, init_db)\<close>

record milestone =
  row_id :: int
  escrow_tx_hash :: string
  owner_address :: string
  offer_sequence :: int
  fulfillment_b64 :: string
  status :: string
  created_at :: int
  released_tx_hash :: "string option"
  released_at :: "int option"

type_synonym db = "milestone list"

text \<open>\<^verbatim>\<open>CREATE TABLE IF NOT EXISTS\<close> on a new file: no rows.\<close>

definition init_db :: db where
  "init_db = []"

text \<open>
  \<^verbatim>\<open>id INTEGER PRIMARY KEY AUTOINCREMENT\<close>: one more than the largest id the table has
  held. No statement of the program deletes a row, so that is the largest id present.
\<close>

definition next_id :: "db \<Rightarrow> int" where
  "next_id d = fold max (map row_id d) 0 + 1"

text \<open>
  The sqlite3 module binds a Python \<^verbatim>\<open>int\<close> parameter as a 64-bit signed INTEGER and
  raises \<^verbatim>\<open>OverflowError\<close> for a value outside that range, before the statement runs.
\<close>

definition sqlite_int_ok :: "int \<Rightarrow> bool" where
  "sqlite_int_ok n \<longleftrightarrow> - (2 ^ 63) \<le> n \<and> n < 2 ^ 63"

text \<open>The \<^verbatim>\<open>WHERE owner_address = ? AND offer_sequence = ?\<close> of every keyed statement.\<close>

definition key_matches :: "string \<Rightarrow> int \<Rightarrow> milestone \<Rightarrow> bool" where
  "key_matches own sq r \<longleftrightarrow> owner_address r = own \<and> offer_sequence r = sq"

text \<open>
  The unique index \<^verbatim>\<open>idx_milestone_owner_seq\<close> on (owner_address, offer_sequence), and
  the INTEGER range of the stored sequence numbers: what SQLite guarantees of every table
  the program can reach.
\<close>

definition unique_keys :: "db \<Rightarrow> bool" where
  "unique_keys d \<longleftrightarrow> distinct (map (\<lambda>r. (owner_address r, offer_sequence r)) d)"

definition stored_ints_ok :: "db \<Rightarrow> bool" where
  "stored_ints_ok d \<longleftrightarrow> list_all (\<lambda>r. sqlite_int_ok (offer_sequence r)) d"

definition table_ok :: "db \<Rightarrow> bool" where
  "table_ok d \<longleftrightarrow> unique_keys d \<and> stored_ints_ok d"

subsection \<open>storage.py\<close>

text \<open>
  \<^verbatim>\<open>save_milestone\<close>: one INSERT of a LOCKED row stamped with the current time
  (\<open>now\<close> is \<^verbatim>\<open>int(time.time())\<close>). The insert raises \<^verbatim>\<open>IntegrityError\<close> when
  the unique index already holds the pair; \<^verbatim>\<open>db_conn\<close> then skips its commit and
  closes the connection, so the table is as before.
\<close>

definition save_milestone ::
  "int \<Rightarrow> string \<Rightarrow> string \<Rightarrow> int \<Rightarrow> string \<Rightarrow> db \<Rightarrow> (exn + unit) \<times> db" where
  "save_milestone now etx own sq ful d =
     (if \<not> sqlite_int_ok sq \<or> \<not> sqlite_int_ok now then (Inl OverflowError, d)
      else if list_ex (key_matches own sq) d then (Inl IntegrityError, d)
      else (Inr (),
            d @ [\<lparr>row_id = next_id d, escrow_tx_hash = etx, owner_address = own,
                  offer_sequence = sq, fulfillment_b64 = ful, status = ''LOCKED'',
                  created_at = now, released_tx_hash = None, released_at = None\<rparr>]))"

text \<open>
  \<^verbatim>\<open>get_fulfillment\<close>: \<^verbatim>\<open>fetchone()\<close> of the rows with the key and status LOCKED;
  \<^verbatim>\<open>None\<close> when there is none.
\<close>

definition get_fulfillment :: "string \<Rightarrow> int \<Rightarrow> db \<Rightarrow> exn + string option" where
  "get_fulfillment own sq d =
     (if \<not> sqlite_int_ok sq then Inl OverflowError
      else (case filter (\<lambda>r. key_matches own sq r \<and> status r = ''LOCKED'') d of
              [] \<Rightarrow> Inr None
            | r # _ \<Rightarrow> Inr (Some (fulfillment_b64 r))))"

text \<open>
  \<^verbatim>\<open>mark_released\<close>: one UPDATE of the rows with the key. Its WHERE clause names the
  key only. The cursor, and with it the row count, is dropped: the function returns
  \<^verbatim>\<open>None\<close>.
\<close>

definition set_released :: "string \<Rightarrow> int \<Rightarrow> milestone \<Rightarrow> milestone" where
  "set_released rel now r =
     r\<lparr>status := ''RELEASED'', released_tx_hash := Some rel, released_at := Some now\<rparr>"

definition mark_released ::
  "int \<Rightarrow> string \<Rightarrow> int \<Rightarrow> string \<Rightarrow> db \<Rightarrow> (exn + unit) \<times> db" where
  "mark_released now own sq rel d =
     (if \<not> sqlite_int_ok now \<or> \<not> sqlite_int_ok sq then (Inl OverflowError, d)
      else (Inr (), map (\<lambda>r. if key_matches own sq r then set_released rel now r else r) d))"

text \<open>
  \<^verbatim>\<open>list_milestones\<close>: seven columns of every row, \<^verbatim>\<open>ORDER BY created_at DESC\<close>,
  each row as a Python dict. SQL leaves the order of rows with equal \<open>created_at\<close> open;
  here they keep their insertion order.
\<close>

datatype pyval = Text string | Integer int | Null

type_synonym pydict = "(string \<times> pyval) list"

definition opt_text :: "string option \<Rightarrow> pyval" where
  "opt_text v = (case v of None \<Rightarrow> Null | Some s \<Rightarrow> Text s)"

definition opt_integer :: "int option \<Rightarrow> pyval" where
  "opt_integer v = (case v of None \<Rightarrow> Null | Some i \<Rightarrow> Integer i)"

definition summary :: "milestone \<Rightarrow> pydict" where
  "summary r =
     [(''escrow_tx_hash'', Text (escrow_tx_hash r)),
      (''owner_address'', Text (owner_address r)),
      (''offer_sequence'', Integer (offer_sequence r)),
      (''status'', Text (status r)),
      (''created_at'', Integer (created_at r)),
      (''released_tx_hash'', opt_text (released_tx_hash r)),
      (''released_at'', opt_integer (released_at r))]"

definition list_milestones :: "db \<Rightarrow> pydict list" where
  "list_milestones d = map summary (sort_key (\<lambda>r. - created_at r) d)"

subsection \<open>conditions.py\<close>

text \<open>
  \<^verbatim>\<open>secrets.token_bytes\<close>, \<^verbatim>\<open>hashlib.sha256\<close> and \<^verbatim>\<open>base64.b64encode\<close> are the
  standard library's. The random source is a parameter (a stream of bytes, of which
  \<^verbatim>\<open>token_bytes(n)\<close> takes the first \<open>n\<close>), the hash function is a parameter, and
  base64 is written out: the alphabet of RFC 4648 with \<^verbatim>\<open>=\<close> padding, three bytes to
  four characters of six bits each.
\<close>

type_synonym byte = "8 word"

definition token_bytes :: "(nat \<Rightarrow> byte) \<Rightarrow> nat \<Rightarrow> byte list" where
  "token_bytes rnd n = map rnd [0..<n]"

definition b64_alphabet :: string where
  "b64_alphabet = ''ABCDEFGHIJKLMNOPQRSTUVWXYZabcdefghijklmnopqrstuvwxyz0123456789+/''"

definition b64_char :: "nat \<Rightarrow> char" where
  "b64_char n = b64_alphabet ! n"

fun b64encode :: "byte list \<Rightarrow> string" where
  "b64encode [] = []"
| "b64encode [a] =
     [b64_char (unat a div 4), b64_char (unat a mod 4 * 16), CHR ''='', CHR ''='']"
| "b64encode [a, b] =
     [b64_char (unat a div 4), b64_char (unat a mod 4 * 16 + unat b div 16),
      b64_char (unat b mod 16 * 4), CHR ''='']"
| "b64encode (a # b # c # bs) =
     [b64_char (unat a div 4), b64_char (unat a mod 4 * 16 + unat b div 16),
      b64_char (unat b mod 16 * 4 + unat c div 64), b64_char (unat c mod 64)] @ b64encode bs"

text \<open>
  The decoder the properties of the pair are stated with (\<^verbatim>\<open>decodeBase64\<close>): the
  inverse reading of the same alphabet, four characters at a time, padding only at the end.
\<close>

fun index_of :: "'a \<Rightarrow> 'a list \<Rightarrow> nat option" where
  "index_of x [] = None"
| "index_of x (y # ys) = (if x = y then Some 0 else map_option Suc (index_of x ys))"

definition b64_value :: "char \<Rightarrow> nat option" where
  "b64_value c = index_of c b64_alphabet"

fun b64decode :: "string \<Rightarrow> byte list option" where
  "b64decode [] = Some []"
| "b64decode (c1 # c2 # c3 # c4 # cs) =
     (case (b64_value c1, b64_value c2) of
        (Some v1, Some v2) \<Rightarrow>
          if c3 = CHR ''='' \<and> c4 = CHR ''='' \<and> cs = []
          then Some [of_nat (v1 * 4 + v2 div 16)]
          else (case b64_value c3 of
                  None \<Rightarrow> None
                | Some v3 \<Rightarrow>
                    if c4 = CHR ''='' \<and> cs = []
                    then Some [of_nat (v1 * 4 + v2 div 16), of_nat (v2 mod 16 * 16 + v3 div 4)]
                    else (case b64_value c4 of
                            None \<Rightarrow> None
                          | Some v4 \<Rightarrow>
                              (case b64decode cs of
                                 None \<Rightarrow> None
                               | Some bs \<Rightarrow>
                                   Some (of_nat (v1 * 4 + v2 div 16)
                                         # of_nat (v2 mod 16 * 16 + v3 div 4)
                                         # of_nat (v3 mod 4 * 64 + v4) # bs))))
      | _ \<Rightarrow> None)"
| "b64decode _ = None"

text \<open>
  \<^verbatim>\<open>generate_condition_pair\<close>: 32 random bytes, their hash, both base64-encoded
  (\<^verbatim>\<open>.decode("utf-8")\<close> of base64 output changes nothing).
\<close>

definition generate_condition_pair ::
  "(nat \<Rightarrow> byte) \<Rightarrow> (byte list \<Rightarrow> byte list) \<Rightarrow> string \<times> string" where
  "generate_condition_pair rnd H =
     (let secret = token_bytes rnd 32;
          condition = H secret
      in (b64encode condition, b64encode secret))"

subsection \<open>escrows.py\<close>

text \<open>
  The xrpl library is a collaborator, not code of the program: the wallet constructor and
  \<^verbatim>\<open>submit_and_wait\<close> are parameters, and so are the clock and the generator's two
  sources. \<^verbatim>\<open>submit_and_wait\<close> blocks until the ledger settles; meanwhile other requests
  commit to the same SQLite file. So it is given the table as it is when the call starts and
  returns, with the response or the exception, the table as it is when the call ends. A
  run with no other request is one where it returns the table it was given.
\<close>

record wallet =
  wallet_seed :: string
  classic_address :: string

datatype tx =
    EscrowCreate string string string string
      \<comment> \<open>account, destination, amount, condition\<close>
  | EscrowFinish string string int "string option" "string option"
      \<comment> \<open>account, owner, offer_sequence, condition, fulfillment\<close>

text \<open>
  xrpl validates a transaction model when it is constructed. For \<^verbatim>\<open>EscrowFinish\<close> the
  rule is that condition and fulfillment come together: a model with one of them set
  (Python truth: neither \<^verbatim>\<open>None\<close> nor empty) and the other not raises
  \<^verbatim>\<open>XRPLModelException\<close>.
\<close>

definition truthy :: "string option \<Rightarrow> bool" where
  "truthy v \<longleftrightarrow> v \<noteq> None \<and> v \<noteq> Some []"

definition xrpl_EscrowFinish ::
  "string \<Rightarrow> string \<Rightarrow> int \<Rightarrow> string option \<Rightarrow> string option \<Rightarrow> exn + tx" where
  "xrpl_EscrowFinish acct own sq cond ful =
     (if truthy cond \<and> \<not> truthy ful
      then Inl (XRPLModelException
                  ''If condition is specified, fulfillment must also be specified.'')
      else if truthy ful \<and> \<not> truthy cond
      then Inl (XRPLModelException
                  ''If fulfillment is specified, condition must also be specified.'')
      else Inr (EscrowFinish acct own sq cond ful))"

text \<open>
  \<^verbatim>\<open>resp.result\<close>: the keys the program reads. A sequence number the ledger reports is
  a JSON integer, on which \<^verbatim>\<open>int()\<close> is the identity.
\<close>

record response =
  result_hash :: "string option"
  result_Sequence :: "int option"
  result_tx_json_Sequence :: "int option"

record env =
  Wallet :: "string \<Rightarrow> exn + wallet"
  rng :: "nat \<Rightarrow> byte"
  sha256 :: "byte list \<Rightarrow> byte list"
  submit_and_wait :: "tx \<Rightarrow> wallet \<Rightarrow> db \<Rightarrow> (exn + response) \<times> db"
  time :: int

text \<open>
  What a call leaves behind: the value returned or the exception raised, the table, and
  the transactions it handed to \<^verbatim>\<open>submit_and_wait\<close>.
\<close>

record outcome =
  result :: "exn + pydict"
  db_after :: db
  submitted :: "tx list"

definition create_milestone_escrow ::
  "env \<Rightarrow> string \<Rightarrow> string \<Rightarrow> string \<Rightarrow> db \<Rightarrow> outcome" where
  "create_milestone_escrow ev employer_seed freelancer_address amount_drops d =
     (case Wallet ev employer_seed of
        Inl e \<Rightarrow> \<lparr>result = Inl e, db_after = d, submitted = []\<rparr>
      | Inr employer_wallet \<Rightarrow>
          (let pair = generate_condition_pair (rng ev) (sha256 ev);
               escrow_tx = EscrowCreate (classic_address employer_wallet) freelancer_address
                             amount_drops (fst pair)
           in case submit_and_wait ev escrow_tx employer_wallet d of
                (Inl e, d1) \<Rightarrow> \<lparr>result = Inl e, db_after = d1, submitted = [escrow_tx]\<rparr>
              | (Inr resp, d1) \<Rightarrow>
                  (case (case result_Sequence resp of
                           Some sq \<Rightarrow> Some sq
                         | None \<Rightarrow> result_tx_json_Sequence resp) of
                     None \<Rightarrow>
                       \<lparr>result = Inl (RuntimeError
                            ''Could not determine OfferSequence/Sequence for created escrow.''),
                        db_after = d1, submitted = [escrow_tx]\<rparr>
                   | Some sq \<Rightarrow>
                       (case result_hash resp of
                          None \<Rightarrow>
                            \<lparr>result = Inl (KeyError ''hash''), db_after = d1,
                             submitted = [escrow_tx]\<rparr>
                        | Some h \<Rightarrow>
                            (case save_milestone (time ev) h (classic_address employer_wallet)
                                    sq (snd pair) d1 of
                               (Inl e, d2) \<Rightarrow>
                                 \<lparr>result = Inl e, db_after = d2, submitted = [escrow_tx]\<rparr>
                             | (Inr u, d2) \<Rightarrow>
                                 \<lparr>result = Inr [(''escrow_tx_hash'', Text h),
                                                (''owner_address'',
                                                 Text (classic_address employer_wallet)),
                                                (''offer_sequence'', Integer sq)],
                                  db_after = d2, submitted = [escrow_tx]\<rparr>)))))"

text \<open>
  \<^verbatim>\<open>approve_milestone\<close>. \<^verbatim>\<open>if not fulfillment_b64\<close> is true of \<^verbatim>\<open>None\<close> and of
  the empty string. The \<^verbatim>\<open>EscrowFinish\<close> is constructed with the fulfillment and no
  condition (lines 60 to 65). What \<^verbatim>\<open>mark_released\<close> returns is not read.
\<close>

definition approve_milestone ::
  "env \<Rightarrow> string \<Rightarrow> string \<Rightarrow> int \<Rightarrow> db \<Rightarrow> outcome" where
  "approve_milestone ev employer_seed own sq d =
     (case Wallet ev employer_seed of
        Inl e \<Rightarrow> \<lparr>result = Inl e, db_after = d, submitted = []\<rparr>
      | Inr employer_wallet \<Rightarrow>
          (case get_fulfillment own sq d of
             Inl e \<Rightarrow> \<lparr>result = Inl e, db_after = d, submitted = []\<rparr>
           | Inr found \<Rightarrow>
               if found = None \<or> found = Some []
               then \<lparr>result = Inl (RuntimeError
                        ''No stored fulfillment found (already released, or wrong owner/sequence).''),
                     db_after = d, submitted = []\<rparr>
               else
                 (case xrpl_EscrowFinish (classic_address employer_wallet) own sq None found of
                    Inl e \<Rightarrow> \<lparr>result = Inl e, db_after = d, submitted = []\<rparr>
                  | Inr finish_tx \<Rightarrow>
                      (case submit_and_wait ev finish_tx employer_wallet d of
                         (Inl e, d1) \<Rightarrow>
                           \<lparr>result = Inl e, db_after = d1, submitted = [finish_tx]\<rparr>
                       | (Inr resp, d1) \<Rightarrow>
                           (case result_hash resp of
                              None \<Rightarrow>
                                \<lparr>result = Inl (KeyError ''hash''), db_after = d1,
                                 submitted = [finish_tx]\<rparr>
                            | Some h \<Rightarrow>
                                (case mark_released (time ev) own sq h d1 of
                                   (Inl e, d2) \<Rightarrow>
                                     \<lparr>result = Inl e, db_after = d2,
                                      submitted = [finish_tx]\<rparr>
                                 | (Inr u, d2) \<Rightarrow>
                                     \<lparr>result = Inr [(''tx_hash'', Text h)], db_after = d2,
                                      submitted = [finish_tx]\<rparr>))))))"

subsection \<open>Two rows used as concrete inputs\<close>

definition ex_locked :: milestone where
  "ex_locked = \<lparr>row_id = 1, escrow_tx_hash = ''E1'', owner_address = ''rOWNER1'',
     offer_sequence = 5, fulfillment_b64 = ''c2VjcmV0'', status = ''LOCKED'',
     created_at = 100, released_tx_hash = None, released_at = None\<rparr>"

definition ex_released :: milestone where
  "ex_released = \<lparr>row_id = 2, escrow_tx_hash = ''E2'', owner_address = ''rOWNER2'',
     offer_sequence = 7, fulfillment_b64 = ''b3RoZXI='', status = ''RELEASED'',
     created_at = 150, released_tx_hash = Some ''TX1'', released_at = Some 160\<rparr>"

subsection \<open>Collaborators used as concrete inputs\<close>

text \<open>
  A wallet constructor that accepts one seed; a ledger that settles and one that times
  out; a stand-in for the hash function.
\<close>

definition ex_wallet :: "string \<Rightarrow> exn + wallet" where
  "ex_wallet sd =
     (if sd = ''sEMPLOYER'' then Inr \<lparr>wallet_seed = sd, classic_address = ''rOWNER1''\<rparr>
      else Inl (XRPLException ''invalid seed''))"

definition ex_response :: response where
  "ex_response = \<lparr>result_hash = Some ''TX9'', result_Sequence = Some 5,
                  result_tx_json_Sequence = None\<rparr>"

definition ex_submit_ok :: "tx \<Rightarrow> wallet \<Rightarrow> db \<Rightarrow> (exn + response) \<times> db" where
  "ex_submit_ok t w d = (Inr ex_response, d)"

definition ex_submit_fail :: "tx \<Rightarrow> wallet \<Rightarrow> db \<Rightarrow> (exn + response) \<times> db" where
  "ex_submit_fail t w d = (Inl (XRPLException ''timeout''), d)"

definition ex_hash :: "byte list \<Rightarrow> byte list" where
  "ex_hash bs = [of_nat (length bs)]"

definition ex_env :: "(tx \<Rightarrow> wallet \<Rightarrow> db \<Rightarrow> (exn + response) \<times> db) \<Rightarrow> env" where
  "ex_env sub = \<lparr>Wallet = ex_wallet, rng = (\<lambda>i. of_nat i), sha256 = ex_hash,
                 submit_and_wait = sub, time = 200\<rparr>"

section \<open>The store\<close>

subsection \<open>The unique index and the INTEGER range are kept by every write\<close>

lemma table_ok_init: "table_ok init_db"
  by (simp add: table_ok_def unique_keys_def stored_ints_ok_def init_db_def)

lemma list_ex_key:
  "list_ex (key_matches own sq) d \<longleftrightarrow>
   (own, sq) \<in> set (map (\<lambda>r. (owner_address r, offer_sequence r)) d)"
  by (auto simp: list_ex_iff key_matches_def)

lemma table_ok_save: "table_ok d \<Longrightarrow> table_ok (snd (save_milestone now etx own sq ful d))"
  by (auto simp: table_ok_def unique_keys_def stored_ints_ok_def save_milestone_def list_ex_key)

lemma keys_mark:
  "map (\<lambda>r. (owner_address r, offer_sequence r)) (snd (mark_released now own sq rel d)) =
   map (\<lambda>r. (owner_address r, offer_sequence r)) d"
  by (auto simp: mark_released_def set_released_def)

lemma table_ok_mark: "table_ok d \<Longrightarrow> table_ok (snd (mark_released now own sq rel d))"
  unfolding table_ok_def unique_keys_def keys_mark
  by (auto simp: stored_ints_ok_def mark_released_def set_released_def list_all_iff)

lemma ex_table_ok: "table_ok [ex_locked, ex_released]"
  by (simp add: table_ok_def unique_keys_def stored_ints_ok_def ex_locked_def ex_released_def
      sqlite_int_ok_def)

lemma ex_mark:
  "mark_released 200 ''rOWNER1'' 5 ''TX9'' [ex_locked, ex_released] =
     (Inr (), [ex_locked\<lparr>status := ''RELEASED'', released_tx_hash := Some ''TX9'',
                         released_at := Some 200\<rparr>, ex_released])"
  by (simp add: mark_released_def set_released_def key_matches_def sqlite_int_ok_def
      ex_locked_def ex_released_def)

subsection \<open>save\<close>

text \<open>
  C6. In a table that already holds a row with the pair (owner_address, offer_sequence),
  \<open>save_milestone\<close> of a new record with the same pair raises \<open>IntegrityError\<close> (the
  spec's DuplicateMilestone) and leaves the table, the existing row included, as it was.
\<close>

theorem save_duplicate_rejected:
  assumes "table_ok d" and "r \<in> set d" and "sqlite_int_ok now"
  shows "save_milestone now etx (owner_address r) (offer_sequence r) ful d =
         (Inl IntegrityError, d)"
  using assms
  by (auto simp: save_milestone_def table_ok_def stored_ints_ok_def list_all_iff list_ex_iff
      key_matches_def)

theorem save_duplicate_rejected_witness:
  "table_ok [ex_locked, ex_released] \<and> ex_locked \<in> set [ex_locked, ex_released] \<and>
   sqlite_int_ok 200 \<and>
   save_milestone 200 ''E9'' ''rOWNER1'' 5 ''Zm9v'' [ex_locked, ex_released] =
     (Inl IntegrityError, [ex_locked, ex_released])"
proof -
  have a: "table_ok [ex_locked, ex_released]" by (rule ex_table_ok)
  have b: "ex_locked \<in> set [ex_locked, ex_released]" by simp
  have c: "sqlite_int_ok 200" by (simp add: sqlite_int_ok_def)
  have "owner_address ex_locked = ''rOWNER1''" "offer_sequence ex_locked = 5"
    by (simp_all add: ex_locked_def)
  then show ?thesis
    using a b c save_duplicate_rejected [OF a b c, of "''E9''" "''Zm9v''"] by simp
qed

subsection \<open>mark_released: what it leaves alone\<close>

text \<open>
  C10. \<open>mark_released\<close> keeps the number and order of the rows; in every row it keeps
  id, escrow_tx_hash, owner_address, offer_sequence, fulfillment and created_at; and a row
  whose key is not the given one is the same row afterwards. Only status, released_tx_hash
  and released_at of a row with the key can differ.
\<close>

theorem mark_released_frame:
  "length (snd (mark_released now own sq rel d)) = length d \<and>
   (\<forall>i<length d.
      row_id (snd (mark_released now own sq rel d) ! i) = row_id (d ! i) \<and>
      escrow_tx_hash (snd (mark_released now own sq rel d) ! i) = escrow_tx_hash (d ! i) \<and>
      owner_address (snd (mark_released now own sq rel d) ! i) = owner_address (d ! i) \<and>
      offer_sequence (snd (mark_released now own sq rel d) ! i) = offer_sequence (d ! i) \<and>
      fulfillment_b64 (snd (mark_released now own sq rel d) ! i) = fulfillment_b64 (d ! i) \<and>
      created_at (snd (mark_released now own sq rel d) ! i) = created_at (d ! i) \<and>
      (\<not> key_matches own sq (d ! i) \<longrightarrow> snd (mark_released now own sq rel d) ! i = d ! i))"
  by (simp add: mark_released_def set_released_def)

theorem mark_released_frame_witness:
  "mark_released 200 ''rOWNER1'' 5 ''TX9'' [ex_locked, ex_released] =
     (Inr (), [ex_locked\<lparr>status := ''RELEASED'', released_tx_hash := Some ''TX9'',
                         released_at := Some 200\<rparr>, ex_released]) \<and>
   key_matches ''rOWNER1'' 5 ex_locked \<and> \<not> key_matches ''rOWNER1'' 5 ex_released \<and>
   fulfillment_b64 (snd (mark_released 200 ''rOWNER1'' 5 ''TX9'' [ex_locked, ex_released]) ! 0) =
     ''c2VjcmV0'' \<and>
   snd (mark_released 200 ''rOWNER1'' 5 ''TX9'' [ex_locked, ex_released]) ! 1 = ex_released"
  using mark_released_frame [of 200 "''rOWNER1''" 5 "''TX9''" "[ex_locked, ex_released]"] ex_mark
  by (simp add: key_matches_def ex_locked_def ex_released_def)

subsection \<open>list\<close>

lemma sort_key_created_desc:
  "sorted_wrt (\<lambda>a b. created_at a \<ge> created_at b) (sort_key (\<lambda>r. - created_at r) d)"
proof -
  have "sorted (map (\<lambda>r. - created_at r) (sort_key (\<lambda>r. - created_at r) d))"
    by (rule sorted_sort_key)
  then show ?thesis by (simp add: sorted_map)
qed

text \<open>
  C9. \<open>list_milestones\<close> returns as many entries as there are stored rows (no bound):
  the rows in some order in which every row comes before the rows created earlier
  (descending \<open>created_at\<close>, newest first), each row given as the dict of its own
  escrow_tx_hash, owner_address, offer_sequence, status, created_at, released_tx_hash and
  released_at.
\<close>

theorem list_all_newest_first:
  "length (list_milestones d) = length d \<and>
   (\<exists>rs. mset rs = mset d \<and>
         sorted_wrt (\<lambda>a b. created_at b \<le> created_at a) rs \<and>
         list_milestones d =
           map (\<lambda>r. [(''escrow_tx_hash'', Text (escrow_tx_hash r)),
                      (''owner_address'', Text (owner_address r)),
                      (''offer_sequence'', Integer (offer_sequence r)),
                      (''status'', Text (status r)),
                      (''created_at'', Integer (created_at r)),
                      (''released_tx_hash'',
                         case released_tx_hash r of None \<Rightarrow> Null | Some h \<Rightarrow> Text h),
                      (''released_at'',
                         case released_at r of None \<Rightarrow> Null | Some t \<Rightarrow> Integer t)]) rs)"
proof -
  let ?rs = "sort_key (\<lambda>r. - created_at r) d"
  have "mset ?rs = mset d" by simp
  moreover have "sorted_wrt (\<lambda>a b. created_at b \<le> created_at a) ?rs"
    by (rule sort_key_created_desc)
  moreover have "list_milestones d =
           map (\<lambda>r. [(''escrow_tx_hash'', Text (escrow_tx_hash r)),
                      (''owner_address'', Text (owner_address r)),
                      (''offer_sequence'', Integer (offer_sequence r)),
                      (''status'', Text (status r)),
                      (''created_at'', Integer (created_at r)),
                      (''released_tx_hash'',
                         case released_tx_hash r of None \<Rightarrow> Null | Some h \<Rightarrow> Text h),
                      (''released_at'',
                         case released_at r of None \<Rightarrow> Null | Some t \<Rightarrow> Integer t)]) ?rs"
    by (simp add: list_milestones_def summary_def opt_text_def opt_integer_def)
  moreover have "length (list_milestones d) = length d"
    by (simp add: list_milestones_def)
  ultimately show ?thesis by blast
qed

lemma list_milestones_example:
  "list_milestones [ex_locked, ex_released] =
     [[(''escrow_tx_hash'', Text ''E2''), (''owner_address'', Text ''rOWNER2''),
       (''offer_sequence'', Integer 7), (''status'', Text ''RELEASED''),
       (''created_at'', Integer 150), (''released_tx_hash'', Text ''TX1''),
       (''released_at'', Integer 160)],
      [(''escrow_tx_hash'', Text ''E1''), (''owner_address'', Text ''rOWNER1''),
       (''offer_sequence'', Integer 5), (''status'', Text ''LOCKED''),
       (''created_at'', Integer 100), (''released_tx_hash'', Null),
       (''released_at'', Null)]]"
  by (simp add: list_milestones_def summary_def opt_text_def opt_integer_def
      ex_locked_def ex_released_def)

subsection \<open>get_fulfillment\<close>

lemma filter_unique:
  "distinct (map k d) \<Longrightarrow> r \<in> set d \<Longrightarrow> P r \<Longrightarrow> (\<And>x. P x \<Longrightarrow> k x = k r) \<Longrightarrow> filter P d = [r]"
proof (induction d)
  case Nil
  then show ?case by simp
next
  case (Cons a d)
  from Cons.prems(1) have notin: "k a \<notin> k ` set d" and dist: "distinct (map k d)"
    by simp_all
  show ?case
  proof (cases "a = r")
    case True
    have "\<not> P x" if "x \<in> set d" for x
    proof
      assume "P x"
      then have "k x = k a" using Cons.prems(4) True by simp
      moreover have "k x \<in> k ` set d" using that by (rule imageI)
      ultimately show False using notin by simp
    qed
    then have "filter P d = []" by (simp add: filter_empty_conv)
    then show ?thesis using True Cons.prems(3) by simp
  next
    case False
    then have rd: "r \<in> set d" using Cons.prems(2) by simp
    have "\<not> P a"
    proof
      assume "P a"
      then have "k a = k r" using Cons.prems(4) by simp
      moreover have "k r \<in> k ` set d" using rd by (rule imageI)
      ultimately show False using notin by simp
    qed
    moreover have "filter P d = [r]"
      using Cons.IH [OF dist rd Cons.prems(3) Cons.prems(4)] .
    ultimately show ?thesis by simp
  qed
qed

lemma filter_mark_empty:
  "filter (\<lambda>r. key_matches own sq r \<and> status r = ''LOCKED'')
          (map (\<lambda>r. if key_matches own sq r then set_released rel now r else r) d) = []"
  by (induction d) (auto simp: set_released_def key_matches_def)

lemma get_Some_row:
  assumes "get_fulfillment own sq d = Inr (Some f)"
  shows "\<exists>r\<in>set d. key_matches own sq r \<and> status r = ''LOCKED'' \<and> fulfillment_b64 r = f"
proof -
  from assms obtain r rs where
    f: "filter (\<lambda>r. key_matches own sq r \<and> status r = ''LOCKED'') d = r # rs"
    and ff: "fulfillment_b64 r = f"
    by (auto simp: get_fulfillment_def split: if_splits list.splits)
  have "r \<in> set (filter (\<lambda>r. key_matches own sq r \<and> status r = ''LOCKED'') d)"
    unfolding f by simp
  then show ?thesis using ff by auto
qed

lemma row_get_Some:
  assumes ok: "table_ok d" and r: "r \<in> set d" "key_matches own sq r" "status r = ''LOCKED''"
  shows "get_fulfillment own sq d = Inr (Some (fulfillment_b64 r))"
proof -
  have "filter (\<lambda>r. key_matches own sq r \<and> status r = ''LOCKED'') d = [r]"
    using ok r
    by (intro filter_unique [where k = "\<lambda>r. (owner_address r, offer_sequence r)"])
       (auto simp: table_ok_def unique_keys_def key_matches_def)
  moreover have "sqlite_int_ok sq"
    using ok r by (auto simp: table_ok_def stored_ints_ok_def list_all_iff key_matches_def)
  ultimately show ?thesis by (simp add: get_fulfillment_def)
qed

lemma get_after_mark:
  assumes "fst (mark_released now own sq rel d) = Inr ()"
  shows "get_fulfillment own sq (snd (mark_released now own sq rel d)) = Inr None"
proof -
  from assms have ok: "sqlite_int_ok now" "sqlite_int_ok sq"
    by (auto simp: mark_released_def split: if_splits)
  then show ?thesis
    by (simp add: mark_released_def get_fulfillment_def filter_mark_empty)
qed

lemma ex_get: "get_fulfillment ''rOWNER1'' 5 [ex_locked, ex_released] = Inr (Some ''c2VjcmV0'')"
  by (simp add: get_fulfillment_def key_matches_def sqlite_int_ok_def ex_locked_def ex_released_def)

lemma ex_get_released: "get_fulfillment ''rOWNER2'' 7 [ex_locked, ex_released] = Inr None"
  by (simp add: get_fulfillment_def key_matches_def sqlite_int_ok_def ex_locked_def
      ex_released_def)

text \<open>
  C2. In a table with the unique index, \<open>get_fulfillment\<close> returns a fulfillment exactly
  when a row with the key exists whose status is LOCKED, and then it is that row's; and
  after a \<open>mark_released\<close> for a key that returned, \<open>get_fulfillment\<close> for the same
  key returns \<^verbatim>\<open>None\<close>.
\<close>

theorem get_fulfillment_iff_locked:
  assumes "table_ok d"
  shows "(get_fulfillment own sq d = Inr (Some f)) =
           (\<exists>r\<in>set d. key_matches own sq r \<and> status r = ''LOCKED'' \<and> fulfillment_b64 r = f) \<and>
         (fst (mark_released now own sq rel d) = Inr () \<longrightarrow>
            get_fulfillment own sq (snd (mark_released now own sq rel d)) = Inr None)"
  using assms get_Some_row row_get_Some get_after_mark by blast

theorem get_fulfillment_iff_locked_witness:
  "table_ok [ex_locked, ex_released] \<and>
   get_fulfillment ''rOWNER1'' 5 [ex_locked, ex_released] = Inr (Some ''c2VjcmV0'') \<and>
   ex_locked \<in> set [ex_locked, ex_released] \<and> key_matches ''rOWNER1'' 5 ex_locked \<and>
   status ex_locked = ''LOCKED'' \<and> fulfillment_b64 ex_locked = ''c2VjcmV0'' \<and>
   fst (mark_released 200 ''rOWNER1'' 5 ''TX9'' [ex_locked, ex_released]) = Inr () \<and>
   get_fulfillment ''rOWNER1'' 5
     (snd (mark_released 200 ''rOWNER1'' 5 ''TX9'' [ex_locked, ex_released])) = Inr None"
  using get_fulfillment_iff_locked [OF ex_table_ok, of "''rOWNER1''" 5 "''c2VjcmV0''" 200 "''TX9''"]
    ex_table_ok ex_get ex_mark
  by (simp add: key_matches_def ex_locked_def)

subsection \<open>mark_released: what it changes\<close>

text \<open>
  C1, as stated, fails: the UPDATE has no condition on the status. On a row that is
  already RELEASED, with release hash TX1 and time 160, \<open>mark_released\<close> writes the new
  hash and the new time, so the row is not left unchanged.
\<close>

theorem mark_released_overwrites_released_counterexample:
  "status ex_released = ''RELEASED'' \<and> key_matches ''rOWNER2'' 7 ex_released \<and>
   mark_released 200 ''rOWNER2'' 7 ''TX9'' [ex_locked, ex_released] =
     (Inr (), [ex_locked, ex_released\<lparr>released_tx_hash := Some ''TX9'', released_at := Some 200\<rparr>]) \<and>
   snd (mark_released 200 ''rOWNER2'' 7 ''TX9'' [ex_locked, ex_released]) \<noteq> [ex_locked, ex_released]"
  by (simp add: mark_released_def set_released_def key_matches_def sqlite_int_ok_def
      ex_locked_def ex_released_def)

text \<open>
  C1, amended. \<open>mark_released\<close> returns the same value whatever the table holds (it
  reports nothing about the update); when it returns, every row with the key has status
  RELEASED, the given release hash and the current time, whatever its status was before; and
  a row that is RELEASED is still RELEASED after \<open>mark_released\<close> and after
  \<open>save_milestone\<close>, the two writes of the store.
\<close>

theorem mark_released_any_status:
  "fst (mark_released now own sq rel d) = fst (mark_released now own sq rel []) \<and>
   length (snd (mark_released now own sq rel d)) = length d \<and>
   (\<forall>i<length d.
      (fst (mark_released now own sq rel d) = Inr () \<and> key_matches own sq (d ! i) \<longrightarrow>
         status (snd (mark_released now own sq rel d) ! i) = ''RELEASED'' \<and>
         released_tx_hash (snd (mark_released now own sq rel d) ! i) = Some rel \<and>
         released_at (snd (mark_released now own sq rel d) ! i) = Some now) \<and>
      (status (d ! i) = ''RELEASED'' \<longrightarrow>
         status (snd (mark_released now own sq rel d) ! i) = ''RELEASED'' \<and>
         status (snd (save_milestone now' etx own' sq' ful d) ! i) = ''RELEASED''))"
  by (auto simp: mark_released_def set_released_def save_milestone_def nth_append)

theorem mark_released_any_status_witness:
  "fst (mark_released 200 ''rOWNER2'' 7 ''TX9'' [ex_locked, ex_released]) = Inr () \<and>
   key_matches ''rOWNER2'' 7 ([ex_locked, ex_released] ! 1) \<and>
   status ([ex_locked, ex_released] ! 1) = ''RELEASED'' \<and>
   status (snd (mark_released 200 ''rOWNER2'' 7 ''TX9'' [ex_locked, ex_released]) ! 1) = ''RELEASED'' \<and>
   released_tx_hash (snd (mark_released 200 ''rOWNER2'' 7 ''TX9'' [ex_locked, ex_released]) ! 1) = Some ''TX9'' \<and>
   released_at (snd (mark_released 200 ''rOWNER2'' 7 ''TX9'' [ex_locked, ex_released]) ! 1) = Some 200 \<and>
   status (snd (save_milestone 300 ''E3'' ''rOWNER3'' 9 ''eA=='' [ex_locked, ex_released]) ! 1) = ''RELEASED''"
proof -
  have ok: "fst (mark_released 200 ''rOWNER2'' 7 ''TX9'' [ex_locked, ex_released]) = Inr ()"
    by (simp add: mark_released_def sqlite_int_ok_def)
  have k: "key_matches ''rOWNER2'' 7 ([ex_locked, ex_released] ! 1)"
    and st: "status ([ex_locked, ex_released] ! 1) = ''RELEASED''"
    by (simp_all add: key_matches_def ex_released_def)
  have i: "1 < length [ex_locked, ex_released]" by simp
  note t = mark_released_any_status [of 200 "''rOWNER2''" 7 "''TX9''" "[ex_locked, ex_released]"
      300 "''E3''" "''rOWNER3''" 9 "''eA==''", THEN conjunct2, THEN conjunct2, rule_format, OF i]
  from t ok k st show ?thesis by blast
qed

section \<open>The coordinator\<close>

lemma ex_wallet_ok:
  "Wallet (ex_env sub) ''sEMPLOYER'' = Inr \<lparr>wallet_seed = ''sEMPLOYER'', classic_address = ''rOWNER1''\<rparr>"
  by (simp add: ex_env_def ex_wallet_def)

lemma ex_wallet_refused: "Wallet (ex_env sub) ''sBAD'' = Inl (XRPLException ''invalid seed'')"
  by (simp add: ex_env_def ex_wallet_def)

subsection \<open>The release transaction is refused when it is built\<close>

text \<open>
  A found fulfillment is never empty when the \<^verbatim>\<open>EscrowFinish\<close> is built, and no condition
  is passed, so the constructor raises: \<open>approve_milestone\<close> raises on every input, hands
  nothing to \<^verbatim>\<open>submit_and_wait\<close>, and does not reach \<open>mark_released\<close>.
\<close>

lemma finish_without_condition:
  "found \<noteq> None \<Longrightarrow> found \<noteq> Some [] \<Longrightarrow>
   xrpl_EscrowFinish acct own sq None found =
     Inl (XRPLModelException ''If fulfillment is specified, condition must also be specified.'')"
  by (simp add: xrpl_EscrowFinish_def truthy_def)

lemma approve_found:
  assumes "Wallet ev seed = Inr w" and "get_fulfillment own sq d = Inr (Some f)" and "f \<noteq> []"
  shows "approve_milestone ev seed own sq d =
         \<lparr>result = Inl (XRPLModelException
            ''If fulfillment is specified, condition must also be specified.''),
          db_after = d, submitted = []\<rparr>"
  using assms by (simp add: approve_milestone_def finish_without_condition)

lemma approve_not_found:
  assumes "Wallet ev seed = Inr w" and "get_fulfillment own sq d = Inr None"
  shows "approve_milestone ev seed own sq d =
         \<lparr>result = Inl (RuntimeError
            ''No stored fulfillment found (already released, or wrong owner/sequence).''),
          db_after = d, submitted = []\<rparr>"
  using assms by (simp add: approve_milestone_def)

lemma approve_refused:
  assumes "Wallet ev seed = Inl e"
  shows "approve_milestone ev seed own sq d = \<lparr>result = Inl e, db_after = d, submitted = []\<rparr>"
  using assms by (simp add: approve_milestone_def)

lemma approve_writes_nothing:
  "db_after (approve_milestone ev seed own sq d) = d \<and>
   submitted (approve_milestone ev seed own sq d) = []"
proof (cases "Wallet ev seed")
  case (Inl e)
  then show ?thesis by (simp add: approve_refused)
next
  case (Inr w)
  show ?thesis
  proof (cases "get_fulfillment own sq d")
    case (Inl e)
    then show ?thesis using Inr by (simp add: approve_milestone_def)
  next
    case found: (Inr found)
    show ?thesis
    proof (cases "found = None \<or> found = Some []")
      case True
      then show ?thesis using Inr found by (auto simp: approve_milestone_def)
    next
      case False
      then show ?thesis
        using Inr found by (simp add: approve_milestone_def finish_without_condition)
    qed
  qed
qed

subsection \<open>approve_milestone with nothing to release\<close>

text \<open>
  C5, as stated, fails: the wallet is constructed from the credential (line 54) before the
  store is asked (line 56). With a credential the constructor refuses and a key for which
  \<open>get_fulfillment\<close> returns \<^verbatim>\<open>None\<close>, \<open>approve_milestone\<close> raises the
  constructor's exception, not the RuntimeError "No stored fulfillment found" (the spec's
  NotReleasable).
\<close>

theorem approve_refused_credential_counterexample:
  "get_fulfillment ''rOWNER2'' 7 [ex_locked, ex_released] = Inr None \<and>
   approve_milestone (ex_env ex_submit_ok) ''sBAD'' ''rOWNER2'' 7 [ex_locked, ex_released] =
     \<lparr>result = Inl (XRPLException ''invalid seed''), db_after = [ex_locked, ex_released],
      submitted = []\<rparr> \<and>
   result (approve_milestone (ex_env ex_submit_ok) ''sBAD'' ''rOWNER2'' 7
             [ex_locked, ex_released]) \<noteq>
     Inl (RuntimeError
        ''No stored fulfillment found (already released, or wrong owner/sequence).'')"
  by (simp add: ex_get_released approve_refused [OF ex_wallet_refused])

text \<open>
  C5, amended. When \<open>get_fulfillment\<close> returns \<^verbatim>\<open>None\<close> for the key and the wallet
  constructor accepts the credential, \<open>approve_milestone\<close> raises the RuntimeError "No
  stored fulfillment found", hands nothing to the ledger and leaves the table as it is;
  when the constructor refuses the credential, \<open>approve_milestone\<close> raises the
  constructor's exception, again with no ledger call; and once \<open>mark_released\<close> has
  returned for a key, \<open>approve_milestone\<close> for that key with an accepted credential
  fails with that RuntimeError and no ledger call.
\<close>

theorem approve_not_releasable:
  "(Wallet ev seed = Inr w \<and> get_fulfillment own sq d = Inr None \<longrightarrow>
      approve_milestone ev seed own sq d =
        \<lparr>result = Inl (RuntimeError
           ''No stored fulfillment found (already released, or wrong owner/sequence).''),
         db_after = d, submitted = []\<rparr>) \<and>
   (Wallet ev seed = Inl e \<longrightarrow>
      approve_milestone ev seed own sq d = \<lparr>result = Inl e, db_after = d, submitted = []\<rparr>) \<and>
   (Wallet ev seed = Inr w \<and> fst (mark_released now own sq rel d0) = Inr () \<longrightarrow>
      approve_milestone ev seed own sq (snd (mark_released now own sq rel d0)) =
        \<lparr>result = Inl (RuntimeError
           ''No stored fulfillment found (already released, or wrong owner/sequence).''),
         db_after = snd (mark_released now own sq rel d0), submitted = []\<rparr>)"
  using approve_not_found approve_refused get_after_mark by blast

theorem approve_not_releasable_witness:
  "Wallet (ex_env ex_submit_ok) ''sEMPLOYER'' =
     Inr \<lparr>wallet_seed = ''sEMPLOYER'', classic_address = ''rOWNER1''\<rparr> \<and>
   get_fulfillment ''rOWNER2'' 7 [ex_locked, ex_released] = Inr None \<and>
   approve_milestone (ex_env ex_submit_ok) ''sEMPLOYER'' ''rOWNER2'' 7 [ex_locked, ex_released] =
     \<lparr>result = Inl (RuntimeError
        ''No stored fulfillment found (already released, or wrong owner/sequence).''),
      db_after = [ex_locked, ex_released], submitted = []\<rparr> \<and>
   Wallet (ex_env ex_submit_ok) ''sBAD'' = Inl (XRPLException ''invalid seed'') \<and>
   approve_milestone (ex_env ex_submit_ok) ''sBAD'' ''rOWNER2'' 7 [ex_locked, ex_released] =
     \<lparr>result = Inl (XRPLException ''invalid seed''), db_after = [ex_locked, ex_released],
      submitted = []\<rparr> \<and>
   fst (mark_released 200 ''rOWNER1'' 5 ''TX9'' [ex_locked, ex_released]) = Inr () \<and>
   approve_milestone (ex_env ex_submit_ok) ''sEMPLOYER'' ''rOWNER1'' 5
       (snd (mark_released 200 ''rOWNER1'' 5 ''TX9'' [ex_locked, ex_released])) =
     \<lparr>result = Inl (RuntimeError
        ''No stored fulfillment found (already released, or wrong owner/sequence).''),
      db_after = snd (mark_released 200 ''rOWNER1'' 5 ''TX9'' [ex_locked, ex_released]),
      submitted = []\<rparr>"
proof -
  have m: "fst (mark_released 200 ''rOWNER1'' 5 ''TX9'' [ex_locked, ex_released]) = Inr ()"
    by (simp add: ex_mark)
  note t1 = approve_not_releasable [where ev = "ex_env ex_submit_ok" and seed = "''sEMPLOYER''"
      and own = "''rOWNER2''" and sq = 7 and d = "[ex_locked, ex_released]",
      THEN conjunct1, rule_format, OF conjI [OF ex_wallet_ok ex_get_released]]
  note t2 = approve_not_releasable [where ev = "ex_env ex_submit_ok" and seed = "''sBAD''"
      and own = "''rOWNER2''" and sq = 7 and d = "[ex_locked, ex_released]",
      THEN conjunct2, THEN conjunct1, rule_format, OF ex_wallet_refused]
  note t3 = approve_not_releasable [where ev = "ex_env ex_submit_ok" and seed = "''sEMPLOYER''"
      and own = "''rOWNER1''" and sq = 5,
      THEN conjunct2, THEN conjunct2, rule_format, OF conjI [OF ex_wallet_ok m]]
  show ?thesis
    using t1 t2 t3 m ex_wallet_ok ex_wallet_refused ex_get_released by simp
qed

subsection \<open>A ledger submission that raises\<close>

text \<open>
  C4. When \<open>submit_and_wait\<close> raises, \<open>create_milestone_escrow\<close> raises the same
  exception and writes nothing: the table afterwards is the table as it was when the ledger
  call ended (\<open>save_milestone\<close> is not reached). \<open>approve_milestone\<close> raises before
  it reaches the ledger, so no run of it has a failing submission; what is promised for
  such a run holds of every run: the table is unchanged (\<open>mark_released\<close> is not
  reached), and a fulfillment that \<open>get_fulfillment\<close> returned before is returned after,
  so the row is still LOCKED and the release can be tried again.
\<close>

theorem ledger_failure_no_mutation:
  "(Wallet ev seed = Inr w \<and>
    submit_and_wait ev
      (EscrowCreate (classic_address w) dest amt
         (fst (generate_condition_pair (rng ev) (sha256 ev)))) w d = (Inl e, d1) \<longrightarrow>
    create_milestone_escrow ev seed dest amt d =
      \<lparr>result = Inl e, db_after = d1,
       submitted = [EscrowCreate (classic_address w) dest amt
                      (fst (generate_condition_pair (rng ev) (sha256 ev)))]\<rparr>) \<and>
   db_after (approve_milestone ev seed own sq d) = d \<and>
   (get_fulfillment own sq d = Inr (Some f) \<longrightarrow>
      get_fulfillment own sq (db_after (approve_milestone ev seed own sq d)) = Inr (Some f))"
  by (simp add: create_milestone_escrow_def Let_def approve_writes_nothing)

theorem ledger_failure_no_mutation_witness:
  "Wallet (ex_env ex_submit_fail) ''sEMPLOYER'' =
     Inr \<lparr>wallet_seed = ''sEMPLOYER'', classic_address = ''rOWNER1''\<rparr> \<and>
   submit_and_wait (ex_env ex_submit_fail)
     (EscrowCreate ''rOWNER1'' ''rDEST1'' ''1000000''
        (fst (generate_condition_pair (rng (ex_env ex_submit_fail))
                (sha256 (ex_env ex_submit_fail)))))
     \<lparr>wallet_seed = ''sEMPLOYER'', classic_address = ''rOWNER1''\<rparr> [ex_locked, ex_released] =
     (Inl (XRPLException ''timeout''), [ex_locked, ex_released]) \<and>
   create_milestone_escrow (ex_env ex_submit_fail) ''sEMPLOYER'' ''rDEST1'' ''1000000''
       [ex_locked, ex_released] =
     \<lparr>result = Inl (XRPLException ''timeout''), db_after = [ex_locked, ex_released],
      submitted = [EscrowCreate ''rOWNER1'' ''rDEST1'' ''1000000''
         (fst (generate_condition_pair (rng (ex_env ex_submit_fail))
                 (sha256 (ex_env ex_submit_fail))))]\<rparr> \<and>
   get_fulfillment ''rOWNER1'' 5 [ex_locked, ex_released] = Inr (Some ''c2VjcmV0'') \<and>
   approve_milestone (ex_env ex_submit_fail) ''sEMPLOYER'' ''rOWNER1'' 5 [ex_locked, ex_released] =
     \<lparr>result = Inl (XRPLModelException
        ''If fulfillment is specified, condition must also be specified.''),
      db_after = [ex_locked, ex_released], submitted = []\<rparr> \<and>
   get_fulfillment ''rOWNER1'' 5
     (db_after (approve_milestone (ex_env ex_submit_fail) ''sEMPLOYER'' ''rOWNER1'' 5
        [ex_locked, ex_released])) = Inr (Some ''c2VjcmV0'')"
proof -
  have s1: "submit_and_wait (ex_env ex_submit_fail) t w d = (Inl (XRPLException ''timeout''), d)"
    for t w d
    by (simp add: ex_env_def ex_submit_fail_def)
  note t = ledger_failure_no_mutation [where ev = "ex_env ex_submit_fail"
      and seed = "''sEMPLOYER''" and own = "''rOWNER1''" and sq = 5
      and d = "[ex_locked, ex_released]" and dest = "''rDEST1''" and amt = "''1000000''"]
  have h: "Wallet (ex_env ex_submit_fail) ''sEMPLOYER'' =
        Inr \<lparr>wallet_seed = ''sEMPLOYER'', classic_address = ''rOWNER1''\<rparr> \<and>
      submit_and_wait (ex_env ex_submit_fail)
        (EscrowCreate
           (classic_address \<lparr>wallet_seed = ''sEMPLOYER'', classic_address = ''rOWNER1''\<rparr>)
           ''rDEST1'' ''1000000''
           (fst (generate_condition_pair (rng (ex_env ex_submit_fail))
                   (sha256 (ex_env ex_submit_fail)))))
        \<lparr>wallet_seed = ''sEMPLOYER'', classic_address = ''rOWNER1''\<rparr> [ex_locked, ex_released] =
      (Inl (XRPLException ''timeout''), [ex_locked, ex_released])"
    by (simp add: ex_wallet_ok s1)
  note t1 = t [THEN conjunct1, rule_format, OF h]
  note t3 = t [THEN conjunct2, THEN conjunct2, rule_format, OF ex_get]
  have ne: "''c2VjcmV0'' \<noteq> []" by simp
  note a = approve_found [OF ex_wallet_ok ex_get ne, of ex_submit_fail]
  show ?thesis using t1 t3 a ex_wallet_ok ex_get s1 by simp
qed

section \<open>Where the fulfillment goes\<close>












section \<open>The condition generator\<close>

subsection \<open>Decoding undoes encoding\<close>

lemma index_of_nth:
  "distinct xs \<Longrightarrow> i < length xs \<Longrightarrow> index_of (xs ! i) xs = Some i"
proof (induction xs arbitrary: i)
  case Nil
  then show ?case by simp
next
  case (Cons x xs)
  show ?case
  proof (cases i)
    case 0
    then show ?thesis by simp
  next
    case (Suc j)
    with Cons.prems have "j < length xs" "xs ! j \<noteq> x" by auto
    then show ?thesis using Cons Suc by simp
  qed
qed

lemma b64_alphabet_length: "length b64_alphabet = 64"
  by (simp add: b64_alphabet_def)

lemma b64_alphabet_distinct: "distinct b64_alphabet"
  by (simp add: b64_alphabet_def)

lemma b64_alphabet_no_pad: "CHR ''='' \<notin> set b64_alphabet"
  by (simp add: b64_alphabet_def)

lemma b64_value_char: "i < 64 \<Longrightarrow> b64_value (b64_char i) = Some i"
  by (simp add: b64_value_def b64_char_def index_of_nth b64_alphabet_distinct b64_alphabet_length)

lemma b64_char_no_pad: "i < 64 \<Longrightarrow> b64_char i \<noteq> CHR ''=''"
proof -
  assume "i < 64"
  then have "b64_char i \<in> set b64_alphabet"
    by (simp add: b64_char_def b64_alphabet_length)
  then show ?thesis using b64_alphabet_no_pad by auto
qed

lemma byte_bound: "unat (a :: byte) < 256"
  using unsigned_less [of a, where 'a = nat] by simp

lemma split_high: "t < k \<Longrightarrow> (r * k + t) div k = (r::nat)"
  by simp

lemma split_low: "t < k \<Longrightarrow> (r * k + t) mod k = (t::nat)"
  by simp

lemma q4: "x < 256 \<Longrightarrow> x div 4 < (64::nat)"
  by (simp add: less_mult_imp_div_less)

lemma q16: "y < 256 \<Longrightarrow> y div 16 < (16::nat)"
  by (simp add: less_mult_imp_div_less)

lemma q64: "z < 256 \<Longrightarrow> z div 64 < (4::nat)"
  by (simp add: less_mult_imp_div_less)

lemma sextet2: "y < 256 \<Longrightarrow> x mod 4 * 16 + y div 16 < (64::nat)"
proof -
  assume "y < 256"
  then have "y div 16 < 16" by (rule q16)
  moreover have "x mod 4 < 4" by simp
  ultimately show ?thesis by linarith
qed

lemma sextet3: "z < 256 \<Longrightarrow> y mod 16 * 4 + z div 64 < (64::nat)"
proof -
  assume "z < 256"
  then have "z div 64 < 4" by (rule q64)
  moreover have "y mod 16 < 16" by simp
  ultimately show ?thesis by linarith
qed

lemma sextet2_pad: "x mod 4 * 16 < (64::nat)"
proof -
  have "x mod 4 < 4" by simp
  then show ?thesis by linarith
qed

lemma sextet3_pad: "y mod 16 * 4 < (64::nat)"
proof -
  have "y mod 16 < 16" by simp
  then show ?thesis by linarith
qed

lemma byte1: "y div 16 < 16 \<Longrightarrow> x div 4 * 4 + (x mod 4 * 16 + y div 16) div 16 = (x::nat)"
  by (simp add: split_high)

lemma byte1_pad: "x div 4 * 4 + (x mod 4 * 16) div 16 = (x::nat)"
  by simp

lemma byte2:
  "y div 16 < 16 \<Longrightarrow> z div 64 < 4 \<Longrightarrow>
   (x mod 4 * 16 + y div 16) mod 16 * 16 + (y mod 16 * 4 + z div 64) div 4 = (y::nat)"
  by (simp add: split_high split_low)

lemma byte2_pad:
  "y div 16 < 16 \<Longrightarrow> (x mod 4 * 16 + y div 16) mod 16 * 16 + (y mod 16 * 4) div 4 = (y::nat)"
  by (simp add: split_low)

lemma byte3: "z div 64 < 4 \<Longrightarrow> (y mod 16 * 4 + z div 64) mod 4 * 64 + z mod 64 = (z::nat)"
  by (simp add: split_low)

lemma b64decode_pad2:
  assumes "s1 < 64" "s2 < 64"
  shows "b64decode [b64_char s1, b64_char s2, CHR ''='', CHR ''=''] =
         Some [of_nat (s1 * 4 + s2 div 16)]"
  using assms by (simp add: b64_value_char)

lemma b64decode_pad1:
  assumes "s1 < 64" "s2 < 64" "s3 < 64"
  shows "b64decode [b64_char s1, b64_char s2, b64_char s3, CHR ''=''] =
         Some [of_nat (s1 * 4 + s2 div 16), of_nat (s2 mod 16 * 16 + s3 div 4)]"
  using assms by (simp add: b64_value_char b64_char_no_pad)

lemma b64decode_full:
  assumes "s1 < 64" "s2 < 64" "s3 < 64" "s4 < 64" "b64decode cs = Some bs"
  shows "b64decode (b64_char s1 # b64_char s2 # b64_char s3 # b64_char s4 # cs) =
         Some (of_nat (s1 * 4 + s2 div 16) # of_nat (s2 mod 16 * 16 + s3 div 4)
               # of_nat (s3 mod 4 * 64 + s4) # bs)"
  using assms by (simp add: b64_value_char b64_char_no_pad)

lemma b64_roundtrip: "b64decode (b64encode bs) = Some bs"
proof (induction bs rule: b64encode.induct)
  case 1
  then show ?case by simp
next
  case (2 a)
  have "unat a div 4 * 4 + (unat a mod 4 * 16) div 16 = unat a" by (rule byte1_pad)
  then have "(of_nat (unat a div 4 * 4 + (unat a mod 4 * 16) div 16) :: byte) = a"
    by simp
  then show ?case
    using b64decode_pad2 [OF q4 [OF byte_bound [of a]] sextet2_pad [of "unat a"]]
    by simp
next
  case (3 a b)
  note ya = q16 [OF byte_bound [of b]]
  have "unat a div 4 * 4 + (unat a mod 4 * 16 + unat b div 16) div 16 = unat a"
    by (rule byte1 [OF ya])
  then have b1: "(of_nat (unat a div 4 * 4 + (unat a mod 4 * 16 + unat b div 16) div 16) :: byte) = a"
    by simp
  have "(unat a mod 4 * 16 + unat b div 16) mod 16 * 16 + (unat b mod 16 * 4) div 4 = unat b"
    by (rule byte2_pad [OF ya])
  then have b2: "(of_nat ((unat a mod 4 * 16 + unat b div 16) mod 16 * 16
                    + (unat b mod 16 * 4) div 4) :: byte) = b"
    by simp
  show ?case
    using b64decode_pad1 [OF q4 [OF byte_bound [of a]] sextet2 [OF byte_bound [of b], of "unat a"]
        sextet3_pad [of "unat b"]] b1 b2
    by simp
next
  case (4 a b c bs)
  note ya = q16 [OF byte_bound [of b]]
  note zc = q64 [OF byte_bound [of c]]
  have "unat a div 4 * 4 + (unat a mod 4 * 16 + unat b div 16) div 16 = unat a"
    by (rule byte1 [OF ya])
  then have b1: "(of_nat (unat a div 4 * 4 + (unat a mod 4 * 16 + unat b div 16) div 16) :: byte) = a"
    by simp
  have "(unat a mod 4 * 16 + unat b div 16) mod 16 * 16
          + (unat b mod 16 * 4 + unat c div 64) div 4 = unat b"
    by (rule byte2 [OF ya zc])
  then have b2: "(of_nat ((unat a mod 4 * 16 + unat b div 16) mod 16 * 16
                    + (unat b mod 16 * 4 + unat c div 64) div 4) :: byte) = b"
    by simp
  have "(unat b mod 16 * 4 + unat c div 64) mod 4 * 64 + unat c mod 64 = unat c"
    by (rule byte3 [OF zc])
  then have b3: "(of_nat ((unat b mod 16 * 4 + unat c div 64) mod 4 * 64 + unat c mod 64) :: byte) = c"
    by simp
  have s4: "unat c mod 64 < 64" by simp
  show ?case
    using b64decode_full [OF q4 [OF byte_bound [of a]] sextet2 [OF byte_bound [of b], of "unat a"]
        sextet3 [OF byte_bound [of c], of "unat b"] s4 4] b1 b2 b3
    by simp
qed


lemma b64encode_rfc4648_vectors:
  "b64encode [102] = ''Zg==''"
  "b64encode [102, 111] = ''Zm8=''"
  "b64encode [102, 111, 111] = ''Zm9v''"
  "b64encode [102, 111, 111, 98, 97, 114] = ''Zm9vYmFy''"
  "b64encode [255, 254, 253] = ''//79''"
  by (simp_all add: b64_char_def b64_alphabet_def)

lemma token_bytes_length: "length (token_bytes r n) = n"
  by (simp add: token_bytes_def)

text \<open>
  C7. For every random source and every hash function, the pair \<open>generate_condition_pair\<close>
  returns is made of one secret of 32 bytes: the fulfillment decodes from base64 to the
  secret, and the condition decodes to the hash of that secret, so the hash of the decoded
  fulfillment is the decoded condition.
\<close>

theorem condition_is_hash_of_fulfillment:
  "length (token_bytes r 32) = 32 \<and>
   b64decode (snd (generate_condition_pair r H)) = Some (token_bytes r 32) \<and>
   b64decode (fst (generate_condition_pair r H)) = Some (H (token_bytes r 32))"
  by (simp add: generate_condition_pair_def Let_def b64_roundtrip token_bytes_length)

end
